theory Spec2Isabelle
  imports Complex_Main "HOL-Library.Sublist"
begin

section \<open>Python values, strings and exceptions\<close>

text \<open>
  The program is \<^verbatim>\<open>src/app.py\<close>: a Flask application around the class
  \<^verbatim>\<open>MedicalChatbot\<close>. A Python \<^verbatim>\<open>str\<close> is modelled as a \<open>string\<close> holding its UTF-8
  encoding, so a code point beyond ASCII is several characters. Emptiness, equality,
  concatenation and the substring relation of well-formed strings are the same in
  both views.
\<close>

text \<open>
  A Python \<^verbatim>\<open>float\<close> as the JSON decoder produces it: a finite value, an infinity
  (the flag is its sign) or not-a-number. Only its truth value is used.
\<close>

datatype pyfloat = Finite rat | Infinity bool | NaN

text \<open>
  The values a JSON decoder returns. A \<^verbatim>\<open>dict\<close> is an association list read with
  \<open>map_of\<close>: the first binding of a key is the dict's binding.
\<close>

datatype pyval =
    PyNone
  | PyBool bool
  | PyInt int
  | PyFloat pyfloat
  | PyStr string
  | PyList "pyval list"
  | PyDict "(string \<times> pyval) list"

text \<open>
  The exception classes the handlers of \<^verbatim>\<open>app.py\<close> tell apart, named after the
  library classes: \<^verbatim>\<open>requests.exceptions.Timeout\<close>, \<^verbatim>\<open>ConnectTimeout\<close> (a subclass of
  both \<^verbatim>\<open>ConnectionError\<close> and \<^verbatim>\<open>Timeout\<close>), \<^verbatim>\<open>ConnectionError\<close>, any other
  \<^verbatim>\<open>RequestException\<close> (it includes the library's \<^verbatim>\<open>JSONDecodeError\<close>), any other
  subclass of \<^verbatim>\<open>Exception\<close> (\<^verbatim>\<open>AttributeError\<close>, \<^verbatim>\<open>TypeError\<close>, \<^verbatim>\<open>ValueError\<close>, ...) and
  the subclasses of \<^verbatim>\<open>BaseException\<close> outside \<^verbatim>\<open>Exception\<close> (\<^verbatim>\<open>KeyboardInterrupt\<close>,
  \<^verbatim>\<open>SystemExit\<close>).
\<close>

datatype exn_class =
    requests_Timeout
  | requests_ConnectTimeout
  | requests_ConnectionError
  | requests_RequestException
  | builtin_Exception
  | builtin_BaseException

text \<open>An exception object: its class and \<^verbatim>\<open>str(e)\<close>.\<close>

record exn =
  exn_class :: exn_class
  exn_str :: string

definition isinstance_Timeout :: "exn \<Rightarrow> bool" where
  "isinstance_Timeout e \<longleftrightarrow>
     exn_class e = requests_Timeout \<or> exn_class e = requests_ConnectTimeout"

definition isinstance_ConnectionError :: "exn \<Rightarrow> bool" where
  "isinstance_ConnectionError e \<longleftrightarrow>
     exn_class e = requests_ConnectionError \<or> exn_class e = requests_ConnectTimeout"

definition isinstance_RequestException :: "exn \<Rightarrow> bool" where
  "isinstance_RequestException e \<longleftrightarrow>
     exn_class e = requests_Timeout \<or> exn_class e = requests_ConnectTimeout \<or>
     exn_class e = requests_ConnectionError \<or> exn_class e = requests_RequestException"

definition isinstance_Exception :: "exn \<Rightarrow> bool" where
  "isinstance_Exception e \<longleftrightarrow> exn_class e \<noteq> builtin_BaseException"

text \<open>Python's truth value of an object, as \<^verbatim>\<open>if not ai_response\<close> tests it.\<close>

fun py_truthy :: "pyval \<Rightarrow> bool" where
  "py_truthy PyNone = False"
| "py_truthy (PyBool b) = b"
| "py_truthy (PyInt i) = (i \<noteq> 0)"
| "py_truthy (PyFloat (Finite q)) = (q \<noteq> 0)"
| "py_truthy (PyFloat (Infinity _)) = True"
| "py_truthy (PyFloat NaN) = True"
| "py_truthy (PyStr s) = (s \<noteq> [])"
| "py_truthy (PyList xs) = (xs \<noteq> [])"
| "py_truthy (PyDict kvs) = (kvs \<noteq> [])"

text \<open>\<^verbatim>\<open>type(v).__name__\<close>, for the text of an \<^verbatim>\<open>AttributeError\<close>.\<close>

fun type_name :: "pyval \<Rightarrow> string" where
  "type_name PyNone = ''NoneType''"
| "type_name (PyBool _) = ''bool''"
| "type_name (PyInt _) = ''int''"
| "type_name (PyFloat _) = ''float''"
| "type_name (PyStr _) = ''str''"
| "type_name (PyList _) = ''list''"
| "type_name (PyDict _) = ''dict''"

definition attribute_error :: "pyval \<Rightarrow> string \<Rightarrow> exn" where
  "attribute_error v attr =
     \<lparr>exn_class = builtin_Exception,
      exn_str = [CHR 0x27] @ type_name v @ [CHR 0x27] @ '' object has no attribute '' @
                [CHR 0x27] @ attr @ [CHR 0x27]\<rparr>"

text \<open>
  \<^verbatim>\<open>v.get(key, dflt)\<close>: the lookup of a dict; any other value has no method
  \<^verbatim>\<open>get\<close> and the call raises \<^verbatim>\<open>AttributeError\<close>.
\<close>

fun py_get :: "pyval \<Rightarrow> string \<Rightarrow> pyval \<Rightarrow> exn + pyval" where
  "py_get (PyDict kvs) key dflt =
     Inr (case map_of kvs key of None \<Rightarrow> dflt | Some v \<Rightarrow> v)"
| "py_get v key dflt = Inl (attribute_error v ''get'')"

text \<open>
  \<^verbatim>\<open>str(n)\<close> of an integer: its decimal digits, with a minus sign when negative.
\<close>

fun str_nat :: "nat \<Rightarrow> string" where
  "str_nat n =
     (if n < 10 then [''0123456789'' ! n]
      else str_nat (n div 10) @ [''0123456789'' ! (n mod 10)])"

declare str_nat.simps [simp del]

definition str_int :: "int \<Rightarrow> string" where
  "str_int i = (if i < 0 then ''-'' @ str_nat (nat (- i)) else str_nat (nat i))"

subsection \<open>\<^verbatim>\<open>str.strip()\<close>\<close>

text \<open>
  The characters \<^verbatim>\<open>str.strip()\<close> removes are those with \<^verbatim>\<open>isspace()\<close>: U+0009 to
  U+000D, U+001C to U+0020, U+0085, U+00A0, U+1680, U+2000 to U+200A, U+2028,
  U+2029, U+202F, U+205F and U+3000, here in UTF-8.
\<close>

definition py_whitespace :: "string list" where
  "py_whitespace =
     map (\<lambda>c. [c]) [CHR 0x09, CHR 0x0A, CHR 0x0B, CHR 0x0C, CHR 0x0D,
                    CHR 0x1C, CHR 0x1D, CHR 0x1E, CHR 0x1F, CHR 0x20] @
     [[CHR 0xC2, CHR 0x85], [CHR 0xC2, CHR 0xA0], [CHR 0xE1, CHR 0x9A, CHR 0x80]] @
     map (\<lambda>c. [CHR 0xE2, CHR 0x80, c])
         [CHR 0x80, CHR 0x81, CHR 0x82, CHR 0x83, CHR 0x84, CHR 0x85, CHR 0x86,
          CHR 0x87, CHR 0x88, CHR 0x89, CHR 0x8A, CHR 0xA8, CHR 0xA9, CHR 0xAF] @
     [[CHR 0xE2, CHR 0x81, CHR 0x9F], [CHR 0xE3, CHR 0x80, CHR 0x80]]"

text \<open>
  One whitespace character taken off the front of \<open>s\<close>, if \<open>s\<close> starts with one of
  the sequences \<open>ws\<close>.
\<close>

definition take_space :: "string list \<Rightarrow> string \<Rightarrow> string option" where
  "take_space ws s =
     (case find (\<lambda>w. w \<noteq> [] \<and> prefix w s) ws of
        None \<Rightarrow> None
      | Some w \<Rightarrow> Some (drop (length w) s))"

function strip_front :: "string list \<Rightarrow> string \<Rightarrow> string" where
  "strip_front ws s = (case take_space ws s of None \<Rightarrow> s | Some t \<Rightarrow> strip_front ws t)"
  by pat_completeness auto
termination
  by (relation "measure (\<lambda>(ws, s). length s)")
     (auto simp: take_space_def find_Some_iff prefix_def split: option.splits)

declare strip_front.simps [simp del]

definition lstrip :: "string \<Rightarrow> string" where
  "lstrip s = strip_front py_whitespace s"

definition rstrip :: "string \<Rightarrow> string" where
  "rstrip s = rev (strip_front (map rev py_whitespace) (rev s))"

definition strip :: "string \<Rightarrow> string" where
  "strip s = rstrip (lstrip s)"

text \<open>\<^verbatim>\<open>v.strip()\<close> of any value: only a \<^verbatim>\<open>str\<close> has the method.\<close>

fun py_strip :: "pyval \<Rightarrow> exn + string" where
  "py_strip (PyStr s) = Inr (strip s)"
| "py_strip v = Inl (attribute_error v ''strip'')"

text \<open>
  \<^verbatim>\<open>v[:100]\<close>: a \<^verbatim>\<open>str\<close> or a \<^verbatim>\<open>list\<close> can be sliced; any other value raises. A
  dict raises \<^verbatim>\<open>TypeError\<close> with the text below (\<^verbatim>\<open>KeyError\<close> from Python 3.12 on,
  where a slice is hashable), every other value \<^verbatim>\<open>TypeError\<close>. The slice itself is only
  printed, so the model keeps whether the expression raises.
\<close>

fun py_slice :: "pyval \<Rightarrow> exn option" where
  "py_slice (PyStr s) = None"
| "py_slice (PyList xs) = None"
| "py_slice (PyDict kvs) =
     Some \<lparr>exn_class = builtin_Exception,
           exn_str = ''unhashable type: '' @ [CHR 0x27] @ ''slice'' @ [CHR 0x27]\<rparr>"
| "py_slice v =
     Some \<lparr>exn_class = builtin_Exception,
           exn_str = [CHR 0x27] @ type_name v @ [CHR 0x27] @ '' object is not subscriptable''\<rparr>"

section \<open>The upstream service and the clock\<close>

text \<open>
  An HTTP response of the \<^verbatim>\<open>requests\<close> library, with the fields the program reads:
  \<^verbatim>\<open>status_code\<close>, \<^verbatim>\<open>text\<close> (\<open>response_text\<close>) and the outcome of \<^verbatim>\<open>json()\<close>, which raises on a body
  that is not JSON.
\<close>

record response =
  status_code :: int
  response_text :: string
  json :: "exn + pyval"

text \<open>The JSON payload of the generation call (lines 38 to 45).\<close>

record payload =
  p_model :: string
  p_prompt :: string
  p_stream :: bool
  p_temperature :: rat

text \<open>
  A network call as the program issues it: \<^verbatim>\<open>requests.get(url, timeout)\<close> or
  \<^verbatim>\<open>requests.post(url, json, headers, timeout)\<close>.
\<close>

datatype net_call =
    HttpGet string nat
  | HttpPost string payload "(string \<times> string) list" nat

text \<open>
  What surrounds one call of the program: the answer of the network to a GET and to a
  POST (a response, or the exception \<^verbatim>\<open>requests\<close> raises) and the value of
  \<^verbatim>\<open>datetime.now().isoformat()\<close>.
\<close>

record env =
  http_get :: "string \<Rightarrow> exn + response"
  http_post :: "string \<Rightarrow> payload \<Rightarrow> exn + response"
  now_isoformat :: string

section \<open>The class \<^verbatim>\<open>MedicalChatbot\<close>\<close>

text \<open>An entry of \<^verbatim>\<open>conversation_history\<close> (lines 66 to 70).\<close>

record exchange =
  user :: string
  bot :: pyval
  timestamp :: string

text \<open>
  \<^verbatim>\<open>conversation_history\<close> is a mutable Python list: the object holds a reference to
  it, and the store maps each reference to the list's present contents.
\<close>

type_synonym ref = nat

type_synonym store = "ref \<Rightarrow> exchange list"

record chatbot =
  model :: string
  ollama_url :: string
  conversation_history :: ref

text \<open>\<^verbatim>\<open>list.append\<close> through a reference.\<close>

definition list_append :: "store \<Rightarrow> ref \<Rightarrow> exchange \<Rightarrow> store" where
  "list_append h r x = h(r := h r @ [x])"

text \<open>
  \<^verbatim>\<open>__init__\<close> (lines 10 to 13); \<open>r\<close> is the reference of the list it creates.
\<close>

definition init_chatbot :: "ref \<Rightarrow> string \<Rightarrow> store \<Rightarrow> chatbot \<times> store" where
  "init_chatbot r model_name h =
     (\<lparr>model = model_name,
       ollama_url = ''http://localhost:11434/api/generate'',
       conversation_history = r\<rparr>,
      h(r := []))"

definition default_model_name :: string where
  "default_model_name = ''llama3.2:3b''"

text \<open>
  The result of \<^verbatim>\<open>process_medical_query\<close>. Python returns one untagged object from
  every \<^verbatim>\<open>return\<close> statement; the model keeps which statement returned: \<open>Ok\<close> is
  line 72, and \<open>Failed\<close> carries the returned message with the kind of failure:
  \<open>ConnectionError\<close> lines 27 and 81, \<open>EmptyResponse\<close> line 63, \<open>UpstreamError\<close>
  line 76, \<open>Timeout\<close> line 79, \<open>NetworkError\<close> line 83, \<open>Internal\<close> line 86.
\<close>

datatype error_kind =
    ConnectionError
  | Timeout
  | UpstreamError
  | EmptyResponse
  | NetworkError
  | Internal

datatype gateway_result =
    Ok pyval
  | Failed error_kind string

text \<open>The object the caller receives.\<close>

fun returned_value :: "gateway_result \<Rightarrow> pyval" where
  "returned_value (Ok v) = v"
| "returned_value (Failed k m) = PyStr m"

subsection \<open>The messages\<close>

definition msg_probe_failed :: string where
  "msg_probe_failed =
     [CHR 0xE2, CHR 0x9D, CHR 0x8C] @
     '' Cannot connect to Ollama server. Please make sure Ollama is running with 'ollama serve'' @
     [CHR 0x27]"

definition msg_empty_response :: string where
  "msg_empty_response =
     [CHR 0xE2, CHR 0x9A, CHR 0xA0, CHR 0xEF, CHR 0xB8, CHR 0x8F] @
     '' Received empty response from AI model. Try asking your question differently.''"

definition msg_server_error :: "int \<Rightarrow> string \<Rightarrow> string" where
  "msg_server_error status m =
     [CHR 0xF0, CHR 0x9F, CHR 0x94, CHR 0xA7] @
     '' Ollama server error (Status '' @ str_int status @
     ''). Make sure the model '' @ [CHR 0x27] @ m @ [CHR 0x27] @
     '' is installed with: ollama pull '' @ m"

definition msg_timeout :: string where
  "msg_timeout =
     [CHR 0xE2, CHR 0x8F, CHR 0xB1, CHR 0xEF, CHR 0xB8, CHR 0x8F] @
     '' Request timed out. The AI model might be loading. Please wait a moment and try again.''"

definition msg_connection_error :: string where
  "msg_connection_error =
     [CHR 0xF0, CHR 0x9F, CHR 0x94, CHR 0x8C] @
     '' Cannot connect to Ollama server. Please ensure Ollama is running with 'ollama serve'' @
     [CHR 0x27]"

definition msg_network_error :: "string \<Rightarrow> string" where
  "msg_network_error e_str =
     [CHR 0xF0, CHR 0x9F, CHR 0x9A, CHR 0xAB] @ '' Network error: '' @ e_str"

definition msg_unexpected :: string where
  "msg_unexpected =
     [CHR 0xE2, CHR 0x9A, CHR 0xA0, CHR 0xEF, CHR 0xB8, CHR 0x8F] @
     '' An unexpected error occurred. Please try again.''"

subsection \<open>\<^verbatim>\<open>test_ollama_connection\<close> (lines 15 to 21)\<close>

definition tags_url :: string where
  "tags_url = ''http://localhost:11434/api/tags''"

text \<open>
  The bare \<^verbatim>\<open>except:\<close> turns every exception into \<open>False\<close>. The second component is
  the network call made.
\<close>

definition test_ollama_connection :: "chatbot \<Rightarrow> env \<Rightarrow> bool \<times> net_call list" where
  "test_ollama_connection self w =
     (case http_get w tags_url of
        Inl e \<Rightarrow> False
      | Inr response \<Rightarrow> status_code response = 200,
      [HttpGet tags_url 5])"

subsection \<open>\<^verbatim>\<open>process_medical_query\<close> (lines 23 to 86)\<close>

text \<open>The f-string of lines 31 to 35.\<close>

definition medical_prompt :: "string \<Rightarrow> string" where
  "medical_prompt user_input =
     ''You are a helpful medical information assistant. Please provide informative, accurate responses about health topics, but always remind users that this is for educational purposes only and they should consult healthcare professionals for medical advice.'' @
     [CHR 0x0A, CHR 0x0A] @ ''User question: '' @ user_input @ [CHR 0x0A, CHR 0x0A] @
     ''Please provide a helpful response and include a disclaimer about consulting healthcare professionals.''"

definition make_payload :: "chatbot \<Rightarrow> string \<Rightarrow> payload" where
  "make_payload self user_input =
     \<lparr>p_model = model self,
      p_prompt = medical_prompt user_input,
      p_stream = False,
      p_temperature = 7 / 10\<rparr>"

definition post_call :: "chatbot \<Rightarrow> string \<Rightarrow> net_call" where
  "post_call self user_input =
     HttpPost (ollama_url self) (make_payload self user_input)
       [(''Content-Type'', ''application/json'')] 60"

text \<open>
  The body of the \<^verbatim>\<open>try\<close> statement (lines 31 to 76): \<open>Inl e\<close> when it raises \<open>e\<close>.
  The calls of \<^verbatim>\<open>print\<close> are left out.
\<close>

definition try_body ::
  "chatbot \<Rightarrow> store \<Rightarrow> env \<Rightarrow> string \<Rightarrow> (exn + gateway_result) \<times> store" where
  "try_body self h w user_input =
     (case http_post w (ollama_url self) (make_payload self user_input) of
        Inl e \<Rightarrow> (Inl e, h)
      | Inr response \<Rightarrow>
          if status_code response = 200 then
            (case json response of
               Inl e \<Rightarrow> (Inl e, h)
             | Inr result \<Rightarrow>
                 (case py_get result ''response'' (PyStr []) of
                    Inl e \<Rightarrow> (Inl e, h)
                  | Inr ai_response \<Rightarrow>
                      if \<not> py_truthy ai_response then
                        (Inr (Failed EmptyResponse msg_empty_response), h)
                      else
                        (Inr (Ok ai_response),
                         list_append h (conversation_history self)
                           \<lparr>user = user_input, bot = ai_response,
                            timestamp = now_isoformat w\<rparr>)))
          else
            (Inr (Failed UpstreamError
                   (msg_server_error (status_code response) (model self))), h))"

text \<open>
  The \<^verbatim>\<open>except\<close> clauses (lines 78 to 86), tried in the order they are written; an
  exception none of them matches propagates to the caller.
\<close>

definition except_clauses :: "exn \<Rightarrow> exn + gateway_result" where
  "except_clauses e =
     (if isinstance_Timeout e then Inr (Failed Timeout msg_timeout)
      else if isinstance_ConnectionError e then Inr (Failed ConnectionError msg_connection_error)
      else if isinstance_RequestException e then
        Inr (Failed NetworkError (msg_network_error (exn_str e)))
      else if isinstance_Exception e then Inr (Failed Internal msg_unexpected)
      else Inl e)"

text \<open>
  The method: its result (\<open>Inl e\<close> when \<open>e\<close> escapes to the caller), the store after
  the call, and the network calls made, in order.
\<close>

definition process_medical_query ::
  "chatbot \<Rightarrow> store \<Rightarrow> env \<Rightarrow> string \<Rightarrow> (exn + gateway_result) \<times> store \<times> net_call list" where
  "process_medical_query self h w user_input =
     (let (connected, probe) = test_ollama_connection self w in
      if \<not> connected then
        (Inr (Failed ConnectionError msg_probe_failed), h, probe)
      else
        (case try_body self h w user_input of
           (Inl e, h') \<Rightarrow> (except_clauses e, h', probe @ [post_call self user_input])
         | (Inr r, h') \<Rightarrow> (Inr r, h', probe @ [post_call self user_input])))"

subsection \<open>\<^verbatim>\<open>get_conversation_history\<close> (lines 88 to 90)\<close>

text \<open>The method returns the attribute: the reference to the list, not a new list.\<close>

definition get_conversation_history :: "chatbot \<Rightarrow> ref" where
  "get_conversation_history self = conversation_history self"

text \<open>
  A caller that holds the returned reference can mutate the list through it, for
  instance with \<^verbatim>\<open>history.append(x)\<close> (\<open>list_append\<close>) or \<^verbatim>\<open>history.clear()\<close>.
\<close>

definition list_clear :: "store \<Rightarrow> ref \<Rightarrow> store" where
  "list_clear h r = h(r := [])"

text \<open>A sequence of calls of the method, each with its input and its surroundings.\<close>

fun run_queries ::
  "chatbot \<Rightarrow> store \<Rightarrow> (string \<times> env) list \<Rightarrow> (exn + gateway_result) list \<times> store" where
  "run_queries self h [] = ([], h)"
| "run_queries self h ((user_input, w) # calls) =
     (case process_medical_query self h w user_input of
        (r, h', _) \<Rightarrow>
          (case run_queries self h' calls of (rs, h'') \<Rightarrow> (r # rs, h'')))"

text \<open>A call succeeded when it returned from line 72.\<close>

fun succeeded :: "exn + gateway_result \<Rightarrow> bool" where
  "succeeded (Inr (Ok v)) = True"
| "succeeded _ = False"

text \<open>
  The entry a successful call leaves in the history: the call's input, the object it
  returned and its clock.
\<close>

definition entry_of :: "(string \<times> env) \<times> (exn + gateway_result) \<Rightarrow> exchange" where
  "entry_of c =
     \<lparr>user = fst (fst c), bot = returned_value (projr (snd c)),
      timestamp = now_isoformat (snd (fst c))\<rparr>"

section \<open>The routes\<close>

text \<open>
  A reply of a route: the object given to \<^verbatim>\<open>jsonify\<close> and the HTTP status.
\<close>

type_synonym reply = "pyval \<times> int"

subsection \<open>\<^verbatim>\<open>chat\<close> (lines 101 to 125)\<close>

text \<open>
  The body of the \<^verbatim>\<open>try\<close> statement (lines 105 to 121). \<open>request_json\<close> is the
  outcome of \<^verbatim>\<open>request.get_json()\<close> and \<open>reply_now\<close> the clock read at line 120.
  The global \<^verbatim>\<open>medical_bot\<close> is the parameter \<open>self\<close>.
\<close>

definition chat_try ::
  "chatbot \<Rightarrow> store \<Rightarrow> env \<Rightarrow> exn + pyval \<Rightarrow> string \<Rightarrow>
     (exn + reply) \<times> store \<times> net_call list" where
  "chat_try self h w request_json reply_now =
     (case request_json of
        Inl e \<Rightarrow> (Inl e, h, [])
      | Inr data \<Rightarrow>
          (case py_get data ''message'' (PyStr []) of
             Inl e \<Rightarrow> (Inl e, h, [])
           | Inr message \<Rightarrow>
               (case py_strip message of
                  Inl e \<Rightarrow> (Inl e, h, [])
                | Inr user_message \<Rightarrow>
                    if user_message = [] then
                      (Inr (PyDict [(''error'', PyStr ''Message cannot be empty'')], 400), h, [])
                    else
                      (case process_medical_query self h w user_message of
                         (Inl e, h', calls) \<Rightarrow> (Inl e, h', calls)
                       | (Inr r, h', calls) \<Rightarrow>
                           (case py_slice (returned_value r) of
                              Some e \<Rightarrow> (Inl e, h', calls)
                            | None \<Rightarrow>
                                (Inr (PyDict [(''response'', returned_value r),
                                              (''timestamp'', PyStr reply_now)], 200),
                                 h', calls))))))"

definition chat ::
  "chatbot \<Rightarrow> store \<Rightarrow> env \<Rightarrow> exn + pyval \<Rightarrow> string \<Rightarrow>
     (exn + reply) \<times> store \<times> net_call list" where
  "chat self h w request_json reply_now =
     (case chat_try self h w request_json reply_now of
        (Inl e, h', calls) \<Rightarrow>
          (if isinstance_Exception e then
             Inr (PyDict [(''error'', PyStr (''Server error: '' @ exn_str e))], 500)
           else Inl e,
           h', calls)
      | (Inr reply, h', calls) \<Rightarrow> (Inr reply, h', calls))"

subsection \<open>\<^verbatim>\<open>get_history\<close> (lines 127 to 131)\<close>

definition exchange_dict :: "exchange \<Rightarrow> pyval" where
  "exchange_dict x =
     PyDict [(''user'', PyStr (user x)), (''bot'', bot x), (''timestamp'', PyStr (timestamp x))]"

definition get_history :: "chatbot \<Rightarrow> store \<Rightarrow> reply" where
  "get_history self h = (PyList (map exchange_dict (h (get_conversation_history self))), 200)"

text \<open>Whether a network call is a call of the generation endpoint.\<close>

fun is_post :: "net_call \<Rightarrow> bool" where
  "is_post (HttpPost url p headers t) = True"
| "is_post (HttpGet url t) = False"

text \<open>The kind of failure of a result, if it is one.\<close>

fun failure_kind :: "exn + gateway_result \<Rightarrow> error_kind option" where
  "failure_kind (Inr (Failed k m)) = Some k"
| "failure_kind _ = None"

section \<open>Sample inputs\<close>

text \<open>
  The chatbot the program creates at line 93, with the list it owns at reference
  \<open>0\<close> of an otherwise empty store.
\<close>

definition example_bot :: chatbot where
  "example_bot = fst (init_chatbot 0 default_model_name (\<lambda>_. []))"

definition example_store :: store where
  "example_store = snd (init_chatbot 0 default_model_name (\<lambda>_. []))"

text \<open>Surroundings that answer every GET with \<open>probe\<close> and every POST with \<open>generation\<close>.\<close>

definition example_env :: "exn + response \<Rightarrow> exn + response \<Rightarrow> env" where
  "example_env probe generation =
     \<lparr>http_get = (\<lambda>_. probe), http_post = (\<lambda>_ _. generation),
      now_isoformat = ''2024-05-01T12:00:00''\<rparr>"

definition tags_ok :: "exn + response" where
  "tags_ok =
     Inr \<lparr>status_code = 200, response_text = ''{}'',
          json = Inr (PyDict [(''models'', PyList [])])\<rparr>"

definition connection_refused :: "exn + response" where
  "connection_refused =
     Inl \<lparr>exn_class = requests_ConnectionError, exn_str = ''Connection refused''\<rparr>"

definition read_timed_out :: "exn + response" where
  "read_timed_out = Inl \<lparr>exn_class = requests_Timeout, exn_str = ''Read timed out.''\<rparr>"

definition too_many_redirects :: "exn + response" where
  "too_many_redirects =
     Inl \<lparr>exn_class = requests_RequestException, exn_str = ''Exceeded 30 redirects.''\<rparr>"

text \<open>A response with the given status whose body decodes to \<open>body\<close>.\<close>

definition answer :: "int \<Rightarrow> pyval \<Rightarrow> exn + response" where
  "answer status body =
     Inr \<lparr>status_code = status, response_text = ''...'', json = Inr body\<rparr>"

text \<open>A response with status 200 whose body is not JSON.\<close>

definition malformed_body :: "exn + response" where
  "malformed_body =
     Inr \<lparr>status_code = 200, response_text = ''<html>'',
          json = Inl \<lparr>exn_class = requests_RequestException,
                      exn_str = ''Expecting value: line 1 column 1 (char 0)''\<rparr>\<rparr>"

definition example_exchange :: exchange where
  "example_exchange = \<lparr>user = ''forged'', bot = PyStr ''entry'', timestamp = ''never''\<rparr>"

section \<open>Properties of \<^verbatim>\<open>process_medical_query\<close>\<close>

subsection \<open>The two ways through the method\<close>

lemma test_ollama_connection_calls:
  "snd (test_ollama_connection self w) = [HttpGet tags_url 5]"
  by (simp add: test_ollama_connection_def)

lemma probe_failed:
  "\<not> fst (test_ollama_connection self w) \<Longrightarrow>
   process_medical_query self h w user_input =
     (Inr (Failed ConnectionError msg_probe_failed), h, [HttpGet tags_url 5])"
  by (simp add: process_medical_query_def test_ollama_connection_def split: sum.splits)

lemma probe_passed:
  "fst (test_ollama_connection self w) \<Longrightarrow>
   process_medical_query self h w user_input =
     (case try_body self h w user_input of
        (Inl e, h') \<Rightarrow> (except_clauses e, h', [HttpGet tags_url 5, post_call self user_input])
      | (Inr r, h') \<Rightarrow> (Inr r, h', [HttpGet tags_url 5, post_call self user_input]))"
  by (simp add: process_medical_query_def test_ollama_connection_def split: sum.splits prod.splits)

lemma except_clauses_not_Ok: "except_clauses e \<noteq> Inr (Ok v)"
  by (simp add: except_clauses_def)

lemma try_body_store:
  "try_body self h w user_input = (r, h') \<Longrightarrow>
     (\<exists>v. r = Inr (Ok v) \<and> py_truthy v \<and>
          h' = list_append h (conversation_history self)
                 \<lparr>user = user_input, bot = v, timestamp = now_isoformat w\<rparr>) \<or>
     ((\<forall>v. r \<noteq> Inr (Ok v)) \<and> h' = h)"
  by (auto simp: try_body_def split: sum.splits if_splits)

lemma process_medical_query_store:
  assumes "process_medical_query self h w user_input = (r, h', calls)"
  shows "(\<exists>v. r = Inr (Ok v) \<and> py_truthy v \<and>
            h' = list_append h (conversation_history self)
                   \<lparr>user = user_input, bot = v, timestamp = now_isoformat w\<rparr>) \<or>
         ((\<forall>v. r \<noteq> Inr (Ok v)) \<and> h' = h)"
proof (cases "fst (test_ollama_connection self w)")
  case False
  with assms show ?thesis by (auto simp: probe_failed)
next
  case True
  obtain b hb where b: "try_body self h w user_input = (b, hb)"
    by (cases "try_body self h w user_input")
  from try_body_store [OF b] assms True b show ?thesis
    by (cases b) (auto simp: probe_passed except_clauses_not_Ok)
qed

lemma except_clauses_Exception:
  "isinstance_Exception e \<Longrightarrow> \<exists>k m. except_clauses e = Inr (Failed k m)"
  by (simp add: except_clauses_def)

lemma try_body_raises:
  assumes "try_body self h w user_input = (Inl e, h')"
  shows "http_post w (ollama_url self) (make_payload self user_input) = Inl e \<or>
         (\<exists>resp. http_post w (ollama_url self) (make_payload self user_input) = Inr resp \<and>
            status_code resp = 200 \<and>
            (json resp = Inl e \<or>
             (\<exists>result. json resp = Inr result \<and> e = attribute_error result ''get'')))"
  using assms
  apply (simp add: try_body_def split: sum.splits if_splits)
   apply (auto elim: py_get.elims)
  done

lemma attribute_error_Exception: "isinstance_Exception (attribute_error v a)"
  by (simp add: attribute_error_def isinstance_Exception_def)

lemma try_body_status:
  assumes "http_post w (ollama_url self) (make_payload self user_input) = Inr resp"
      and "status_code resp \<noteq> 200"
  shows "try_body self h w user_input =
           (Inr (Failed UpstreamError (msg_server_error (status_code resp) (model self))), h)"
  using assms by (simp add: try_body_def)

lemma msg_server_error_status: "sublist (str_int status) (msg_server_error status m)"
  unfolding sublist_def msg_server_error_def
  by (rule exI [of _ "[CHR 0xF0, CHR 0x9F, CHR 0x94, CHR 0xA7] @ '' Ollama server error (Status ''"],
      rule exI [of _ "''). Make sure the model '' @ [CHR 0x27] @ m @ [CHR 0x27] @
                      '' is installed with: ollama pull '' @ m"]) simp

lemma msg_server_error_model: "sublist m (msg_server_error status m)"
  unfolding sublist_def msg_server_error_def
  by (rule exI [of _ "[CHR 0xF0, CHR 0x9F, CHR 0x94, CHR 0xA7] @ '' Ollama server error (Status '' @
                      str_int status @ ''). Make sure the model '' @ [CHR 0x27]"],
      rule exI [of _ "[CHR 0x27] @ '' is installed with: ollama pull '' @ m"]) simp

lemma msg_server_error_pull: "sublist (''ollama pull '' @ m) (msg_server_error status m)"
  unfolding sublist_def msg_server_error_def
  by (rule exI [of _ "[CHR 0xF0, CHR 0x9F, CHR 0x94, CHR 0xA7] @ '' Ollama server error (Status '' @
                      str_int status @ ''). Make sure the model '' @ [CHR 0x27] @ m @ [CHR 0x27] @
                      '' is installed with: ''"],
      rule exI [of _ "[]"]) simp

subsection \<open>The conversation history changes exactly on success\<close>

text \<open>
  C1. A call of \<^verbatim>\<open>process_medical_query\<close> appends an entry to
  \<^verbatim>\<open>conversation_history\<close> if and only if it returns from line 72 (\<open>Ok\<close>). The
  returned object is then true in Python's sense (a \<^verbatim>\<open>str\<close> is not empty), and the
  store differs from the old one by that one entry, holding the input, the returned
  object and the clock. Every \<open>Failed\<close> result, of any kind, and an exception that
  escapes leave the store as it was.
\<close>

theorem history_appended_iff_ok:
  assumes "process_medical_query self h w user_input = (r, h', calls)"
  shows "((\<exists>x. h' (conversation_history self) = h (conversation_history self) @ [x]) \<longleftrightarrow>
            (\<exists>v. r = Inr (Ok v)))
       \<and> (\<forall>v. r = Inr (Ok v) \<longrightarrow>
            py_truthy v \<and> (\<forall>s. v = PyStr s \<longrightarrow> s \<noteq> []) \<and>
            h' = list_append h (conversation_history self)
                   \<lparr>user = user_input, bot = v, timestamp = now_isoformat w\<rparr>)
       \<and> (\<forall>k m. r = Inr (Failed k m) \<longrightarrow> h' = h)
       \<and> (\<forall>e. r = Inl e \<longrightarrow> h' = h)"
  using process_medical_query_store [OF assms]
  by (auto simp: list_append_def)

theorem history_appended_iff_ok_witness:
  "process_medical_query example_bot example_store
     (example_env tags_ok (answer 200 (PyDict [(''response'', PyStr ''Rest and drink fluids.'')])))
     ''I have a cold'' =
     (Inr (Ok (PyStr ''Rest and drink fluids.'')),
      list_append example_store (conversation_history example_bot)
        \<lparr>user = ''I have a cold'', bot = PyStr ''Rest and drink fluids.'',
         timestamp = ''2024-05-01T12:00:00''\<rparr>,
      [HttpGet tags_url 5, post_call example_bot ''I have a cold''])
   \<and> (\<exists>x. list_append example_store (conversation_history example_bot)
              \<lparr>user = ''I have a cold'', bot = PyStr ''Rest and drink fluids.'',
               timestamp = ''2024-05-01T12:00:00''\<rparr> (conversation_history example_bot) =
            example_store (conversation_history example_bot) @ [x])"
proof -
  have run: "process_medical_query example_bot example_store
     (example_env tags_ok (answer 200 (PyDict [(''response'', PyStr ''Rest and drink fluids.'')])))
     ''I have a cold'' =
     (Inr (Ok (PyStr ''Rest and drink fluids.'')),
      list_append example_store (conversation_history example_bot)
        \<lparr>user = ''I have a cold'', bot = PyStr ''Rest and drink fluids.'',
         timestamp = ''2024-05-01T12:00:00''\<rparr>,
      [HttpGet tags_url 5, post_call example_bot ''I have a cold''])"
    by (simp add: process_medical_query_def test_ollama_connection_def try_body_def
          example_env_def tags_ok_def answer_def)
  from history_appended_iff_ok [OF run] run show ?thesis by blast
qed

subsection \<open>The method always returns\<close>

text \<open>
  C2. For every input string and every behaviour of the upstream service,
  \<^verbatim>\<open>process_medical_query\<close> returns a result and raises nothing, and the result is
  either \<open>Ok\<close> or \<open>Failed\<close> and not both. The behaviours covered are a probe that
  fails in any way, and a generation call that answers with any status and any body
  or raises any instance of \<^verbatim>\<open>Exception\<close>, also from \<^verbatim>\<open>json()\<close>. The two premises
  say that what the library raises is an instance of \<^verbatim>\<open>Exception\<close>; the handlers of
  lines 78 to 86 do not catch \<^verbatim>\<open>KeyboardInterrupt\<close> or \<^verbatim>\<open>SystemExit\<close>.
\<close>

theorem process_medical_query_returns:
  assumes post: "\<forall>e. http_post w (ollama_url self) (make_payload self user_input) = Inl e
                   \<longrightarrow> isinstance_Exception e"
      and body: "\<forall>resp e. http_post w (ollama_url self) (make_payload self user_input) = Inr resp
                   \<and> json resp = Inl e \<longrightarrow> isinstance_Exception e"
  shows "\<exists>r. fst (process_medical_query self h w user_input) = Inr r \<and>
             ((\<exists>v. r = Ok v) \<noteq> (\<exists>k m. r = Failed k m))"
proof -
  have one: "(\<exists>v. r = Ok v) \<noteq> (\<exists>k m. r = Failed k m)" for r
    by (cases r) auto
  show ?thesis
  proof (cases "fst (test_ollama_connection self w)")
    case False
    then show ?thesis using one by (simp add: probe_failed)
  next
    case True
    obtain b hb where b: "try_body self h w user_input = (b, hb)"
      by (cases "try_body self h w user_input")
    show ?thesis
    proof (cases b)
      case (Inr r)
      with b True show ?thesis using one by (simp add: probe_passed)
    next
      case (Inl e)
      with b have "isinstance_Exception e"
        using try_body_raises [of self h w user_input e hb] post body
        by (auto simp: attribute_error_Exception)
      then obtain k m where "except_clauses e = Inr (Failed k m)"
        using except_clauses_Exception by blast
      with b True Inl show ?thesis using one by (simp add: probe_passed)
    qed
  qed
qed

theorem process_medical_query_returns_witness:
  "fst (process_medical_query example_bot example_store (example_env tags_ok malformed_body)
          ''I have a cold'')
     = Inr (Failed NetworkError (msg_network_error ''Expecting value: line 1 column 1 (char 0)''))"
  using process_medical_query_returns
          [of "example_env tags_ok malformed_body" example_bot "''I have a cold''" example_store]
  by (simp add: process_medical_query_def test_ollama_connection_def try_body_def
        except_clauses_def example_env_def tags_ok_def malformed_body_def
        isinstance_Timeout_def isinstance_ConnectionError_def isinstance_RequestException_def
        isinstance_Exception_def)

subsection \<open>A failed probe\<close>

text \<open>
  C3. If \<^verbatim>\<open>test_ollama_connection\<close> returns \<open>False\<close>, then
  \<^verbatim>\<open>process_medical_query\<close> returns the connection failure of line 27, whose message
  tells the user to make sure the server is running, leaves the store unchanged, and
  the only network call made is the probe: the generation endpoint is not called.
\<close>

theorem probe_failed_no_generation:
  assumes "\<not> fst (test_ollama_connection self w)"
  shows "process_medical_query self h w user_input =
           (Inr (Failed ConnectionError msg_probe_failed), h, [HttpGet tags_url 5])
       \<and> sublist ''Please make sure Ollama is running'' msg_probe_failed
       \<and> filter is_post (snd (snd (process_medical_query self h w user_input))) = []"
proof -
  have "sublist ''Please make sure Ollama is running'' msg_probe_failed"
    unfolding msg_probe_failed_def by code_simp
  with assms show ?thesis by (simp add: probe_failed)
qed

theorem probe_failed_no_generation_witness:
  "\<not> fst (test_ollama_connection example_bot (example_env connection_refused tags_ok)) \<and>
   process_medical_query example_bot example_store (example_env connection_refused tags_ok)
       ''I have a cold'' =
     (Inr (Failed ConnectionError msg_probe_failed), example_store, [HttpGet tags_url 5])"
  using probe_failed_no_generation
          [of example_bot "example_env connection_refused tags_ok" example_store "''I have a cold''"]
  by (simp add: test_ollama_connection_def example_env_def connection_refused_def)

subsection \<open>A status that is not a success\<close>

text \<open>
  C4. When the probe passed and the generation call answers with a status outside
  200 to 299, the result is \<open>Failed UpstreamError\<close> and its message contains the
  status code, the configured model name, and the hint \<^verbatim>\<open>ollama pull\<close> followed by
  the model name.
\<close>

theorem non_2xx_upstream_error:
  assumes "fst (test_ollama_connection self w)"
      and "http_post w (ollama_url self) (make_payload self user_input) = Inr resp"
      and "status_code resp < 200 \<or> 299 < status_code resp"
  shows "fst (process_medical_query self h w user_input) =
           Inr (Failed UpstreamError (msg_server_error (status_code resp) (model self)))
       \<and> sublist (str_int (status_code resp)) (msg_server_error (status_code resp) (model self))
       \<and> sublist (model self) (msg_server_error (status_code resp) (model self))
       \<and> sublist (''ollama pull '' @ model self)
            (msg_server_error (status_code resp) (model self))"
proof -
  from assms(3) have "status_code resp \<noteq> 200" by auto
  from try_body_status [OF assms(2) this] assms(1)
  have "fst (process_medical_query self h w user_input) =
           Inr (Failed UpstreamError (msg_server_error (status_code resp) (model self)))"
    by (simp add: probe_passed)
  then show ?thesis
    using msg_server_error_status msg_server_error_model msg_server_error_pull by blast
qed

theorem non_2xx_upstream_error_witness:
  "fst (process_medical_query example_bot example_store
          (example_env tags_ok (answer 404 (PyDict [(''error'', PyStr ''model not found'')])))
          ''I have a cold'') =
     Inr (Failed UpstreamError (msg_server_error 404 ''llama3.2:3b''))
   \<and> sublist ''404'' (msg_server_error 404 ''llama3.2:3b'')
   \<and> sublist ''llama3.2:3b'' (msg_server_error 404 ''llama3.2:3b'')"
proof -
  have s: "str_int 404 = ''404''" by code_simp
  show ?thesis
    using non_2xx_upstream_error
          [of example_bot "example_env tags_ok (answer 404 (PyDict [(''error'', PyStr ''model not found'')]))"
              "''I have a cold''"
              "\<lparr>status_code = 404, response_text = ''...'',
                json = Inr (PyDict [(''error'', PyStr ''model not found'')])\<rparr>" example_store]
    by (simp add: test_ollama_connection_def example_env_def tags_ok_def answer_def
          example_bot_def init_chatbot_def default_model_name_def s)
qed

subsection \<open>An empty answer\<close>

lemma try_body_ok_dict:
  assumes "http_post w (ollama_url self) (make_payload self user_input) = Inr resp"
      and "status_code resp = 200"
      and "json resp = Inr (PyDict kvs)"
  shows "try_body self h w user_input =
           (let ai_response = (case map_of kvs ''response'' of None \<Rightarrow> PyStr [] | Some v \<Rightarrow> v) in
            if \<not> py_truthy ai_response then (Inr (Failed EmptyResponse msg_empty_response), h)
            else (Inr (Ok ai_response),
                  list_append h (conversation_history self)
                    \<lparr>user = user_input, bot = ai_response, timestamp = now_isoformat w\<rparr>))"
  using assms by (simp add: try_body_def Let_def)

text \<open>
  C5, as the specification states it, fails: line 58 compares the status with 200, so
  a response with status 201 whose \<^verbatim>\<open>response\<close> field is the empty string is reported
  as \<open>UpstreamError\<close>, not as \<open>EmptyResponse\<close>.
\<close>

theorem status_201_counterexample:
  "status_code (projr (answer 201 (PyDict [(''response'', PyStr [])]))) = 201
   \<and> json (projr (answer 201 (PyDict [(''response'', PyStr [])]))) =
       Inr (PyDict [(''response'', PyStr [])])
   \<and> fst (process_medical_query example_bot example_store
            (example_env tags_ok (answer 201 (PyDict [(''response'', PyStr [])])))
            ''I have a cold'') =
       Inr (Failed UpstreamError (msg_server_error 201 ''llama3.2:3b''))
   \<and> failure_kind (fst (process_medical_query example_bot example_store
            (example_env tags_ok (answer 201 (PyDict [(''response'', PyStr [])])))
            ''I have a cold'')) \<noteq> Some EmptyResponse"
  by (simp add: process_medical_query_def test_ollama_connection_def try_body_def
        example_env_def tags_ok_def answer_def example_bot_def init_chatbot_def
        default_model_name_def)

text \<open>
  C5, amended. When the probe passed, the generation call answers with status 200 and
  the body decodes to a JSON object whose \<^verbatim>\<open>response\<close> field is absent or is the empty
  string, the result is \<open>Failed EmptyResponse\<close>, its message asks the user to put the
  question differently, and the store is unchanged.
\<close>

theorem empty_response_on_200:
  assumes "fst (test_ollama_connection self w)"
      and "http_post w (ollama_url self) (make_payload self user_input) = Inr resp"
      and "status_code resp = 200"
      and "json resp = Inr (PyDict kvs)"
      and "map_of kvs ''response'' = None \<or> map_of kvs ''response'' = Some (PyStr [])"
  shows "process_medical_query self h w user_input =
           (Inr (Failed EmptyResponse msg_empty_response), h,
            [HttpGet tags_url 5, post_call self user_input])
       \<and> sublist ''Try asking your question differently'' msg_empty_response"
proof -
  have "sublist ''Try asking your question differently'' msg_empty_response"
    unfolding msg_empty_response_def by code_simp
  moreover have "try_body self h w user_input = (Inr (Failed EmptyResponse msg_empty_response), h)"
    using try_body_ok_dict [OF assms(2,3,4)] assms(5) by auto
  ultimately show ?thesis using assms(1) by (simp add: probe_passed)
qed

theorem empty_response_on_200_witness:
  "process_medical_query example_bot example_store
     (example_env tags_ok (answer 200 (PyDict [(''done'', PyBool True)]))) ''I have a cold'' =
     (Inr (Failed EmptyResponse msg_empty_response), example_store,
      [HttpGet tags_url 5, post_call example_bot ''I have a cold''])"
  using empty_response_on_200
          [of example_bot "example_env tags_ok (answer 200 (PyDict [(''done'', PyBool True)]))"
              "''I have a cold''"
              "\<lparr>status_code = 200, response_text = ''...'',
                json = Inr (PyDict [(''done'', PyBool True)])\<rparr>"
              "[(''done'', PyBool True)]" example_store]
  by (simp add: test_ollama_connection_def example_env_def tags_ok_def answer_def)

subsection \<open>The history after a sequence of calls\<close>

lemma process_medical_query_history:
  assumes "process_medical_query self h w user_input = (r, h', calls)"
  shows "h' (conversation_history self) =
           h (conversation_history self) @
           (if succeeded r
            then [\<lparr>user = user_input, bot = returned_value (projr r),
                   timestamp = now_isoformat w\<rparr>]
            else [])"
proof -
  from process_medical_query_store [OF assms] show ?thesis
  proof
    assume "\<exists>v. r = Inr (Ok v) \<and> py_truthy v \<and>
          h' = list_append h (conversation_history self)
                 \<lparr>user = user_input, bot = v, timestamp = now_isoformat w\<rparr>"
    then show ?thesis by (auto simp: list_append_def)
  next
    assume a: "(\<forall>v. r \<noteq> Inr (Ok v)) \<and> h' = h"
    then have "\<not> succeeded r" by (auto elim: succeeded.elims)
    with a show ?thesis by simp
  qed
qed

lemma run_queries_history:
  "run_queries self h calls = (rs, h') \<Longrightarrow>
     length rs = length calls \<and>
     h' (conversation_history self) =
       h (conversation_history self) @
       map entry_of (filter (\<lambda>c. succeeded (snd c)) (zip calls rs))"
proof (induction calls arbitrary: h rs h')
  case Nil
  then show ?case by simp
next
  case (Cons c calls)
  obtain u w where c: "c = (u, w)" by (cases c)
  obtain r h1 t where step: "process_medical_query self h w u = (r, h1, t)"
    by (cases "process_medical_query self h w u")
  obtain rs1 h2 where rest: "run_queries self h1 calls = (rs1, h2)"
    by (cases "run_queries self h1 calls")
  from Cons.prems c step rest have eq: "rs = r # rs1" "h' = h2" by auto
  from Cons.IH [OF rest] process_medical_query_history [OF step] eq c
  show ?case by (simp add: entry_of_def)
qed

text \<open>
  C6. Starting from an empty history, after any sequence of calls of
  \<^verbatim>\<open>process_medical_query\<close>, of which some succeed and some fail, reading the store
  through the value of \<^verbatim>\<open>get_conversation_history\<close> gives as many entries as calls
  succeeded, and their \<^verbatim>\<open>user\<close> fields are the inputs of the successful calls, unchanged
  and in the order of the calls.
\<close>

theorem history_round_trip:
  assumes "run_queries self h calls = (rs, h')"
      and "h (conversation_history self) = []"
  shows "length rs = length calls
       \<and> length (h' (get_conversation_history self)) = length (filter succeeded rs)
       \<and> map user (h' (get_conversation_history self)) =
           map (\<lambda>c. fst (fst c)) (filter (\<lambda>c. succeeded (snd c)) (zip calls rs))"
proof -
  from run_queries_history [OF assms(1)] assms(2)
  have len: "length rs = length calls"
    and hist: "h' (conversation_history self) =
                 map entry_of (filter (\<lambda>c. succeeded (snd c)) (zip calls rs))"
    by simp_all
  have "length (filter (\<lambda>c. succeeded (snd c)) (zip calls rs)) = length (filter succeeded rs)"
    using len
  proof (induction calls rs rule: list_induct2')
    case (4 x xs y ys) then show ?case by simp
  qed simp_all
  with len hist show ?thesis
    by (simp add: get_conversation_history_def entry_of_def comp_def)
qed

theorem history_round_trip_witness:
  "run_queries example_bot example_store
     [(''I have a cold'', example_env tags_ok (answer 200 (PyDict [(''response'', PyStr ''Rest.'')]))),
      (''What about flu?'', example_env tags_ok read_timed_out),
      (''  And a cough? '', example_env tags_ok (answer 200 (PyDict [(''response'', PyStr ''Honey.'')])))]
   = ([Inr (Ok (PyStr ''Rest.'')), Inr (Failed Timeout msg_timeout), Inr (Ok (PyStr ''Honey.''))],
      example_store(0 := [\<lparr>user = ''I have a cold'', bot = PyStr ''Rest.'', timestamp = ''2024-05-01T12:00:00''\<rparr>,
        \<lparr>user = ''  And a cough? '', bot = PyStr ''Honey.'', timestamp = ''2024-05-01T12:00:00''\<rparr>]))
   \<and> map user ((example_store(0 := [\<lparr>user = ''I have a cold'', bot = PyStr ''Rest.'', timestamp = ''2024-05-01T12:00:00''\<rparr>,
        \<lparr>user = ''  And a cough? '', bot = PyStr ''Honey.'', timestamp = ''2024-05-01T12:00:00''\<rparr>])) (get_conversation_history example_bot))
      = [''I have a cold'', ''  And a cough? '']"
proof -
  have run: "run_queries example_bot example_store
     [(''I have a cold'', example_env tags_ok (answer 200 (PyDict [(''response'', PyStr ''Rest.'')]))),
      (''What about flu?'', example_env tags_ok read_timed_out),
      (''  And a cough? '', example_env tags_ok (answer 200 (PyDict [(''response'', PyStr ''Honey.'')])))]
   = ([Inr (Ok (PyStr ''Rest.'')), Inr (Failed Timeout msg_timeout), Inr (Ok (PyStr ''Honey.''))],
      example_store(0 := [\<lparr>user = ''I have a cold'', bot = PyStr ''Rest.'', timestamp = ''2024-05-01T12:00:00''\<rparr>,
        \<lparr>user = ''  And a cough? '', bot = PyStr ''Honey.'', timestamp = ''2024-05-01T12:00:00''\<rparr>]))"
    by (simp add: process_medical_query_def test_ollama_connection_def try_body_def
          except_clauses_def isinstance_Timeout_def list_append_def
          example_env_def tags_ok_def answer_def read_timed_out_def
          example_bot_def example_store_def init_chatbot_def)
  have empty: "example_store (conversation_history example_bot) = []"
    by (simp add: example_bot_def example_store_def init_chatbot_def)
  from history_round_trip [OF run empty] run show ?thesis by simp
qed

section \<open>Properties of the routes\<close>

subsection \<open>An empty message\<close>

lemma take_space_Nil: "take_space ws [] = None"
  by (simp add: take_space_def find_None_iff split: option.splits)

lemma strip_Nil: "strip [] = []"
  by (simp add: strip_def lstrip_def rstrip_def strip_front.simps take_space_Nil)

lemma process_medical_query_calls:
  "snd (snd (process_medical_query self h w user_input)) \<noteq> []"
  by (cases "fst (test_ollama_connection self w)")
     (simp_all add: probe_failed probe_passed split: prod.splits sum.splits)

text \<open>
  C7. When the body of a request to \<^verbatim>\<open>/chat\<close> is a JSON object that has no
  \<^verbatim>\<open>message\<close> field, or whose \<^verbatim>\<open>message\<close> is a string that \<^verbatim>\<open>strip()\<close> leaves empty,
  the handler replies with status 400 and the body
  \<^verbatim>\<open>{"error": "Message cannot be empty"}\<close>; the store is unchanged and no network call
  is made, so \<^verbatim>\<open>process_medical_query\<close>, which always makes one
  (\<open>process_medical_query_calls\<close>), was not called.
\<close>

theorem chat_empty_message_400:
  assumes "request_json = Inr (PyDict kvs)"
      and "map_of kvs ''message'' = None \<or>
           (\<exists>s. map_of kvs ''message'' = Some (PyStr s) \<and> strip s = [])"
  shows "chat self h w request_json reply_now =
           (Inr (PyDict [(''error'', PyStr ''Message cannot be empty'')], 400), h, [])"
  using assms by (auto simp: chat_def chat_try_def strip_Nil)

theorem chat_empty_message_400_witness:
  "strip ''   '' = [] \<and>
   chat example_bot example_store
     (example_env tags_ok (answer 200 (PyDict [(''response'', PyStr ''Rest.'')])))
     (Inr (PyDict [(''message'', PyStr ''   '')])) ''2024-05-01T12:00:01'' =
     (Inr (PyDict [(''error'', PyStr ''Message cannot be empty'')], 400), example_store, [])"
proof -
  have "strip ''   '' = []"
    by (simp add: strip_def lstrip_def rstrip_def strip_front.simps take_space_def
          py_whitespace_def)
  then show ?thesis
    using chat_empty_message_400
            [of "Inr (PyDict [(''message'', PyStr ''   '')])" "[(''message'', PyStr ''   '')]"
                example_bot example_store
                "example_env tags_ok (answer 200 (PyDict [(''response'', PyStr ''Rest.'')]))"
                "''2024-05-01T12:00:01''"]
    by simp
qed

subsection \<open>The history handed to a caller\<close>

text \<open>
  C8, as the specification states it, fails: \<^verbatim>\<open>get_conversation_history\<close> returns the
  list itself, so an \<^verbatim>\<open>append\<close> through the returned value is seen by the next read of
  the history and by the next reply of \<^verbatim>\<open>/history\<close>.
\<close>

theorem history_alias_counterexample:
  "list_append example_store (get_conversation_history example_bot) example_exchange
     (conversation_history example_bot) = [example_exchange]
   \<and> example_store (conversation_history example_bot) = []
   \<and> snd (get_history example_bot
       (list_append example_store (get_conversation_history example_bot) example_exchange)) = 200
   \<and> fst (get_history example_bot
       (list_append example_store (get_conversation_history example_bot) example_exchange)) \<noteq>
     fst (get_history example_bot example_store)"
  by (simp add: list_append_def get_conversation_history_def get_history_def
        example_bot_def example_store_def init_chatbot_def)

text \<open>
  C8, amended. \<^verbatim>\<open>get_conversation_history\<close> returns the reference the chatbot itself
  holds, not a copy: an entry appended through the returned value is the last entry
  of the history afterwards, and clearing through it empties the history. The route
  \<^verbatim>\<open>/history\<close> replies with the entries of the history in their order in the list.
\<close>

theorem get_conversation_history_is_the_log:
  "get_conversation_history self = conversation_history self
   \<and> list_append h (get_conversation_history self) x (conversation_history self) =
       h (conversation_history self) @ [x]
   \<and> list_clear h (get_conversation_history self) (conversation_history self) = []
   \<and> get_history self h = (PyList (map exchange_dict (h (conversation_history self))), 200)"
  by (simp add: get_conversation_history_def list_append_def list_clear_def get_history_def)

subsection \<open>The messages of failures\<close>

lemma try_body_message:
  "try_body self h w user_input = (Inr (Failed k m), h') \<Longrightarrow>
     k \<noteq> NetworkError \<and>
     (m = msg_empty_response \<or> (\<exists>status. m = msg_server_error status (model self)))"
  by (auto simp: try_body_def split: sum.splits if_splits)

lemma attribute_error_not_RequestException:
  "\<not> isinstance_RequestException (attribute_error v a)"
  by (simp add: attribute_error_def isinstance_RequestException_def)

lemma except_clauses_NetworkError:
  "except_clauses e = Inr (Failed NetworkError m) \<longleftrightarrow>
     isinstance_RequestException e \<and> \<not> isinstance_Timeout e \<and>
     \<not> isinstance_ConnectionError e \<and> m = msg_network_error (exn_str e)"
  by (auto simp: except_clauses_def)

lemma except_clauses_fixed:
  "except_clauses e = Inr (Failed k m) \<Longrightarrow> k \<noteq> NetworkError \<Longrightarrow>
     m = msg_timeout \<or> m = msg_connection_error \<or> m = msg_unexpected"
  by (auto simp: except_clauses_def split: if_splits)

text \<open>
  C9, as the specification states it, fails: line 83 puts \<^verbatim>\<open>str(e)\<close> into the message.
  When the generation call raises a \<^verbatim>\<open>RequestException\<close> that is neither a timeout nor
  a connection error, the text of the exception is part of the result, and \<^verbatim>\<open>/chat\<close>
  sends it to the client.
\<close>

theorem network_error_counterexample:
  "exn_str (projl too_many_redirects) = ''Exceeded 30 redirects.''
   \<and> fst (process_medical_query example_bot example_store
          (example_env tags_ok too_many_redirects) ''I have a cold'') =
     Inr (Failed NetworkError (msg_network_error ''Exceeded 30 redirects.''))
   \<and> sublist ''Exceeded 30 redirects.'' (msg_network_error ''Exceeded 30 redirects.'')
   \<and> fst (chat example_bot example_store (example_env tags_ok too_many_redirects)
            (Inr (PyDict [(''message'', PyStr ''I have a cold'')])) ''2024-05-01T12:00:01'') =
     Inr (PyDict [(''response'', PyStr (msg_network_error ''Exceeded 30 redirects.'')),
                  (''timestamp'', PyStr ''2024-05-01T12:00:01'')], 200)"
proof -
  have "sublist ''Exceeded 30 redirects.'' (msg_network_error ''Exceeded 30 redirects.'')"
    unfolding msg_network_error_def by code_simp
  moreover have "strip ''I have a cold'' = ''I have a cold''"
    by (simp add: strip_def lstrip_def rstrip_def strip_front.simps take_space_def
          py_whitespace_def)
  ultimately show ?thesis
    by (simp add: chat_def chat_try_def process_medical_query_def test_ollama_connection_def
        try_body_def except_clauses_def example_env_def tags_ok_def too_many_redirects_def
        isinstance_Timeout_def isinstance_ConnectionError_def isinstance_RequestException_def)
qed

text \<open>
  C9, amended. Every failure of \<^verbatim>\<open>process_medical_query\<close> other than the network
  error of line 83 has one of five fixed messages, or the message of line 76, which
  is fixed text around the status code and the model name; none of them depends on
  an exception. The network error is returned exactly for an exception \<open>e\<close> that the
  generation call or \<^verbatim>\<open>json()\<close> raised and that is a \<^verbatim>\<open>RequestException\<close> but neither
  a \<^verbatim>\<open>Timeout\<close> nor a \<^verbatim>\<open>ConnectionError\<close>, and its message is the fixed text of line
  83 followed by \<^verbatim>\<open>str(e)\<close> of that very exception: whenever the probe passed and such
  an \<open>e\<close> is raised, the result is the network error with the text of \<open>e\<close>.
\<close>

theorem failure_messages:
  "(\<forall>k m. fst (process_medical_query self h w user_input) = Inr (Failed k m) \<longrightarrow>
      (k = NetworkError \<and>
         (\<exists>e. (http_post w (ollama_url self) (make_payload self user_input) = Inl e \<or>
               (\<exists>resp. http_post w (ollama_url self) (make_payload self user_input) = Inr resp \<and>
                       status_code resp = 200 \<and> json resp = Inl e)) \<and>
              isinstance_RequestException e \<and> \<not> isinstance_Timeout e \<and>
              \<not> isinstance_ConnectionError e \<and> m = msg_network_error (exn_str e)))
      \<or> (k \<noteq> NetworkError \<and>
            (m = msg_probe_failed \<or> m = msg_empty_response \<or> m = msg_timeout \<or>
             m = msg_connection_error \<or> m = msg_unexpected \<or>
             (\<exists>status. m = msg_server_error status (model self)))))
   \<and> (\<forall>e. fst (test_ollama_connection self w) \<and>
          (http_post w (ollama_url self) (make_payload self user_input) = Inl e \<or>
           (\<exists>resp. http_post w (ollama_url self) (make_payload self user_input) = Inr resp \<and>
                   status_code resp = 200 \<and> json resp = Inl e)) \<and>
          isinstance_RequestException e \<and> \<not> isinstance_Timeout e \<and>
          \<not> isinstance_ConnectionError e \<longrightarrow>
          fst (process_medical_query self h w user_input) =
            Inr (Failed NetworkError (msg_network_error (exn_str e))))"
proof (intro conjI allI impI)
  fix k m
  assume res: "fst (process_medical_query self h w user_input) = Inr (Failed k m)"
  let ?fixed = "k \<noteq> NetworkError \<and>
            (m = msg_probe_failed \<or> m = msg_empty_response \<or> m = msg_timeout \<or>
             m = msg_connection_error \<or> m = msg_unexpected \<or>
             (\<exists>status. m = msg_server_error status (model self)))"
  let ?leak = "k = NetworkError \<and>
         (\<exists>e. (http_post w (ollama_url self) (make_payload self user_input) = Inl e \<or>
               (\<exists>resp. http_post w (ollama_url self) (make_payload self user_input) = Inr resp \<and>
                       status_code resp = 200 \<and> json resp = Inl e)) \<and>
              isinstance_RequestException e \<and> \<not> isinstance_Timeout e \<and>
              \<not> isinstance_ConnectionError e \<and> m = msg_network_error (exn_str e))"
  show "?leak \<or> ?fixed"
  proof (cases "fst (test_ollama_connection self w)")
    case False
    with res show ?thesis by (auto simp: probe_failed)
  next
    case True
    obtain b hb where b: "try_body self h w user_input = (b, hb)"
      by (cases "try_body self h w user_input")
    show ?thesis
    proof (cases b)
      case (Inr r)
      with res b True have "try_body self h w user_input = (Inr (Failed k m), hb)"
        by (simp add: probe_passed)
      from try_body_message [OF this] show ?thesis by blast
    next
      case (Inl e)
      with res b True have caught: "except_clauses e = Inr (Failed k m)"
        by (simp add: probe_passed)
      show ?thesis
      proof (cases "k = NetworkError")
        case False
        with except_clauses_fixed [OF caught] show ?thesis by blast
      next
        case True
        with caught have cls: "isinstance_RequestException e" "\<not> isinstance_Timeout e"
            "\<not> isinstance_ConnectionError e" "m = msg_network_error (exn_str e)"
          by (simp_all add: except_clauses_NetworkError)
        from b Inl have "try_body self h w user_input = (Inl e, hb)" by simp
        from try_body_raises [OF this] cls(1)
        have "http_post w (ollama_url self) (make_payload self user_input) = Inl e \<or>
               (\<exists>resp. http_post w (ollama_url self) (make_payload self user_input) = Inr resp \<and>
                       status_code resp = 200 \<and> json resp = Inl e)"
          using attribute_error_not_RequestException by blast
        with True cls show ?thesis by blast
      qed
    qed
  qed
next
  fix e
  assume a: "fst (test_ollama_connection self w) \<and>
          (http_post w (ollama_url self) (make_payload self user_input) = Inl e \<or>
           (\<exists>resp. http_post w (ollama_url self) (make_payload self user_input) = Inr resp \<and>
                   status_code resp = 200 \<and> json resp = Inl e)) \<and>
          isinstance_RequestException e \<and> \<not> isinstance_Timeout e \<and>
          \<not> isinstance_ConnectionError e"
  then have "try_body self h w user_input = (Inl e, h)"
    by (auto simp: try_body_def)
  with a show "fst (process_medical_query self h w user_input) =
            Inr (Failed NetworkError (msg_network_error (exn_str e)))"
    by (simp add: probe_passed except_clauses_def)
qed

theorem failure_messages_witness:
  "fst (process_medical_query example_bot example_store
          (example_env tags_ok too_many_redirects) ''I have a cold'') =
     Inr (Failed NetworkError (msg_network_error (exn_str (projl too_many_redirects))))
   \<and> fst (process_medical_query example_bot example_store
          (example_env tags_ok malformed_body) ''I have a cold'') =
     Inr (Failed NetworkError (msg_network_error ''Expecting value: line 1 column 1 (char 0)''))
   \<and> fst (process_medical_query example_bot example_store
          (example_env tags_ok read_timed_out) ''I have a cold'') =
     Inr (Failed Timeout msg_timeout)"
proof -
  have fixed: "fst (process_medical_query example_bot example_store
          (example_env tags_ok read_timed_out) ''I have a cold'') =
     Inr (Failed Timeout msg_timeout)"
    by (simp add: process_medical_query_def test_ollama_connection_def try_body_def
        except_clauses_def example_env_def tags_ok_def read_timed_out_def
        isinstance_Timeout_def)
  have probe: "fst (test_ollama_connection example_bot (example_env tags_ok g))" for g
    by (simp add: test_ollama_connection_def example_env_def tags_ok_def)
  have redirects: "fst (process_medical_query example_bot example_store
          (example_env tags_ok too_many_redirects) ''I have a cold'') =
     Inr (Failed NetworkError (msg_network_error (exn_str (projl too_many_redirects))))"
    using failure_messages
            [of example_bot example_store "example_env tags_ok too_many_redirects"
                "''I have a cold''", THEN conjunct2, rule_format, of "projl too_many_redirects"]
          probe
    by (simp add: example_env_def too_many_redirects_def isinstance_RequestException_def
          isinstance_Timeout_def isinstance_ConnectionError_def)
  have malformed: "fst (process_medical_query example_bot example_store
          (example_env tags_ok malformed_body) ''I have a cold'') =
     Inr (Failed NetworkError (msg_network_error ''Expecting value: line 1 column 1 (char 0)''))"
    using failure_messages
            [of example_bot example_store "example_env tags_ok malformed_body"
                "''I have a cold''", THEN conjunct2, rule_format,
             of "\<lparr>exn_class = requests_RequestException,
                   exn_str = ''Expecting value: line 1 column 1 (char 0)''\<rparr>"]
          probe
    by (simp add: example_env_def malformed_body_def isinstance_RequestException_def
          isinstance_Timeout_def isinstance_ConnectionError_def)
  from redirects malformed fixed show ?thesis by simp
qed

subsection \<open>An answer of whitespace\<close>

text \<open>
  C10. When the probe passed and the generation call answers with status 200 and a
  JSON object, a \<^verbatim>\<open>response\<close> field that is a non-empty string, also one of
  whitespace only, is returned unchanged as \<open>Ok\<close> and an entry with it is appended to
  the history. Where the field is absent or a string, the result is
  \<open>Failed EmptyResponse\<close> exactly when the field is absent or the string is empty.
\<close>

theorem whitespace_response_is_ok:
  assumes "fst (test_ollama_connection self w)"
      and "http_post w (ollama_url self) (make_payload self user_input) = Inr resp"
      and "status_code resp = 200"
      and "json resp = Inr (PyDict kvs)"
  shows "(map_of kvs ''response'' = Some (PyStr s) \<and> s \<noteq> [] \<longrightarrow>
            process_medical_query self h w user_input =
              (Inr (Ok (PyStr s)),
               list_append h (conversation_history self)
                 \<lparr>user = user_input, bot = PyStr s, timestamp = now_isoformat w\<rparr>,
               [HttpGet tags_url 5, post_call self user_input]))
       \<and> (map_of kvs ''response'' = None \<or> map_of kvs ''response'' = Some (PyStr s) \<longrightarrow>
            (failure_kind (fst (process_medical_query self h w user_input)) = Some EmptyResponse
               \<longleftrightarrow> map_of kvs ''response'' = None \<or> s = []))"
  using try_body_ok_dict [OF assms(2,3,4), of h] assms(1)
  by (auto simp: probe_passed Let_def split: if_splits)

theorem whitespace_response_is_ok_witness:
  "strip ''   '' = [] \<and>
   process_medical_query example_bot example_store
     (example_env tags_ok (answer 200 (PyDict [(''response'', PyStr ''   '')]))) ''I have a cold'' =
     (Inr (Ok (PyStr ''   '')),
      list_append example_store (conversation_history example_bot)
        \<lparr>user = ''I have a cold'', bot = PyStr ''   '', timestamp = ''2024-05-01T12:00:00''\<rparr>,
      [HttpGet tags_url 5, post_call example_bot ''I have a cold''])
   \<and> failure_kind (fst (process_medical_query example_bot example_store
     (example_env tags_ok (answer 200 (PyDict [(''response'', PyStr ''   '')]))) ''I have a cold''))
       \<noteq> Some EmptyResponse"
proof -
  have "strip ''   '' = []"
    by (simp add: strip_def lstrip_def rstrip_def strip_front.simps take_space_def
          py_whitespace_def)
  then show ?thesis
    using whitespace_response_is_ok
          [of example_bot "example_env tags_ok (answer 200 (PyDict [(''response'', PyStr ''   '')]))"
              "''I have a cold''"
              "\<lparr>status_code = 200, response_text = ''...'',
                json = Inr (PyDict [(''response'', PyStr ''   '')])\<rparr>"
              "[(''response'', PyStr ''   '')]" "''   ''" example_store]
    by (simp add: test_ollama_connection_def example_env_def tags_ok_def answer_def)
qed

end
